theory Spec2Isabelle
  imports Main "HOL-Library.Word" "HOL-Library.AList"
begin

section \<open>JavaScript strings\<close>

text \<open>
  A JavaScript string is a sequence of UTF-16 code units; \<open>value.length\<close> counts code
  units. String literals of the source that are plain ASCII are written with \<open>ascii\<close>;
  the one literal that is not (the en dash U+2013 of the postcode message) is written
  with its code unit.
\<close>

type_synonym jsstring = "16 word list"

definition ascii :: "string \<Rightarrow> jsstring" where
  "ascii s = map (\<lambda>c. of_nat (of_char c)) s"

definition SPACE :: "16 word" where
  "SPACE = 0x20"

definition isDigit :: "16 word \<Rightarrow> bool" where
  \<comment> \<open>the regular-expression class \<open>\d\<close>, that is \<open>[0-9]\<close>\<close>
  "isDigit c \<longleftrightarrow> 0x30 \<le> c \<and> c \<le> 0x39"

definition isWhiteSpace :: "16 word \<Rightarrow> bool" where
  \<comment> \<open>ECMAScript WhiteSpace and LineTerminator: what \<open>trim\<close> strips and \<open>\s\<close> matches\<close>
  "isWhiteSpace c \<longleftrightarrow>
     c \<in> set [0x09, 0x0A, 0x0B, 0x0C, 0x0D, 0x20, 0xA0, 0x1680, 0x2028, 0x2029,
              0x202F, 0x205F, 0x3000, 0xFEFF]
     \<or> (0x2000 \<le> c \<and> c \<le> 0x200A)"

definition trim :: "jsstring \<Rightarrow> jsstring" where
  \<comment> \<open>\<open>String.prototype.trim\<close>\<close>
  "trim s = rev (dropWhile isWhiteSpace (rev (dropWhile isWhiteSpace s)))"

fun js_split :: "16 word \<Rightarrow> jsstring \<Rightarrow> jsstring list" where
  \<comment> \<open>\<open>String.prototype.split\<close> with a separator of one code unit; \<open>"".split(" ")\<close> is \<open>[""]\<close>\<close>
  "js_split sep [] = [[]]"
| "js_split sep (c # cs) =
     (if c = sep then [] # js_split sep cs
      else (case js_split sep cs of [] \<Rightarrow> [[c]] | p # ps \<Rightarrow> (c # p) # ps))"

section \<open>Regular expressions\<close>

text \<open>
  The regular expressions of the source and of Yup's \<open>email\<close> are all of the shape
  \<open>/^...$/\<close> without flags, built from character classes, concatenation, non-capturing
  groups and the quantifiers \<open>{m,n}\<close>, \<open>{m,}\<close>, \<open>+\<close>, \<open>*\<close> and \<open>?\<close>.
  \<open>rmatch r s\<close> lists the remainders of \<open>s\<close> after every way of matching \<open>r\<close> on
  a prefix of it (backtracking explores exactly these); the anchored expression is found
  by \<open>search\<close> iff one of them is empty.
\<close>

datatype regex =
  Class "16 word \<Rightarrow> bool"
| Seq regex regex
| Repeat nat "nat option" regex

fun iter :: "(jsstring \<Rightarrow> jsstring list) \<Rightarrow> nat \<Rightarrow> nat \<Rightarrow> jsstring \<Rightarrow> jsstring list" where
  \<comment> \<open>between \<open>lo\<close> and \<open>hi\<close> repetitions of the matcher \<open>m\<close>\<close>
  "iter m lo 0 s = (if lo = 0 then [s] else [])"
| "iter m lo (Suc hi) s =
     (if lo = 0 then [s] else []) @ concat (map (iter m (lo - 1) hi) (m s))"

primrec rmatch :: "regex \<Rightarrow> jsstring \<Rightarrow> jsstring list" where
  "rmatch (Class p) = (\<lambda>s. case s of [] \<Rightarrow> [] | c # cs \<Rightarrow> if p c then [cs] else [])"
| "rmatch (Seq a b) = (\<lambda>s. concat (map (rmatch b) (rmatch a s)))"
| "rmatch (Repeat lo hi a) =
     (\<lambda>s. iter (rmatch a) lo (case hi of Some h \<Rightarrow> h | None \<Rightarrow> max lo (length s)) s)"

definition search :: "regex \<Rightarrow> jsstring \<Rightarrow> bool" where
  \<comment> \<open>\<open>value.search(/^r$/) !== -1\<close>\<close>
  "search r s \<longleftrightarrow> [] \<in> set (rmatch r s)"

definition Plus :: "regex \<Rightarrow> regex" where
  "Plus r = Repeat 1 None r"

definition Star :: "regex \<Rightarrow> regex" where
  "Star r = Repeat 0 None r"

definition Opt :: "regex \<Rightarrow> regex" where
  "Opt r = Repeat 0 (Some 1) r"

definition Lit :: "16 word \<Rightarrow> regex" where
  "Lit c = Class (\<lambda>x. x = c)"

definition isAlnum :: "16 word \<Rightarrow> bool" where
  \<comment> \<open>\<open>[a-zA-Z0-9]\<close>\<close>
  "isAlnum c \<longleftrightarrow> (0x61 \<le> c \<and> c \<le> 0x7A) \<or> (0x41 \<le> c \<and> c \<le> 0x5A) \<or> isDigit c"

definition isAtext :: "16 word \<Rightarrow> bool" where
  \<comment> \<open>\<open>[a-zA-Z0-9.!#$%&'*+\/=?^_`{|}~-]\<close>\<close>
  "isAtext c \<longleftrightarrow> isAlnum c \<or>
     c \<in> set [0x2E, 0x21, 0x23, 0x24, 0x25, 0x26, 0x27, 0x2A, 0x2B, 0x2F, 0x3D, 0x3F,
              0x5E, 0x5F, 0x60, 0x7B, 0x7C, 0x7D, 0x7E, 0x2D]"

definition rLabel :: regex where
  \<comment> \<open>\<open>[a-zA-Z0-9](?:[a-zA-Z0-9-]{0,61}[a-zA-Z0-9])?\<close>\<close>
  "rLabel = Seq (Class isAlnum)
     (Opt (Seq (Repeat 0 (Some 61) (Class (\<lambda>c. isAlnum c \<or> c = 0x2D))) (Class isAlnum)))"

definition rEmail :: regex where
  \<comment> \<open>Yup 1.x, \<open>string.ts\<close> (the pattern of the HTML specification):
     \<open>/^[a-zA-Z0-9.!#$%&'*+\/=?^_`{|}~-]+@LABEL(?:\.LABEL)*$/\<close>\<close>
  "rEmail = Seq (Plus (Class isAtext))
     (Seq (Lit 0x40) (Seq rLabel (Star (Seq (Lit 0x2E) rLabel))))"

section \<open>Yup schemas\<close>

text \<open>
  The source builds its validators from the Yup library and hands them to Formik as
  \<open>validationSchema\<close>. The part of Yup that the source uses is modelled here, as Yup
  1.x behaves: a schema holds its nullability and optionality, an optional whitelist
  (\<open>oneOf\<close>) and the list of its tests in the order of the builder calls; the checks
  of nullability, whitelist and optionality are internal tests that run before the
  others.

  A field value is \<open>undefined\<close>, \<open>null\<close> or a value of the field's type. A thrown
  exception is \<open>Inl\<close>: Yup passes anything a test throws that is not a
  \<open>ValidationError\<close> to \<open>panic\<close>, which rejects the whole validation.
\<close>

datatype exn = TypeError

datatype 'a js = Undefined | Null | Val 'a

definition isAbsent :: "'a js \<Rightarrow> bool" where
  \<comment> \<open>\<open>value == null\<close>\<close>
  "isAbsent v = (case v of Val x \<Rightarrow> False | _ \<Rightarrow> True)"

text \<open>A message is a template; Yup renders it with the path of the field.\<close>

type_synonym message = "string \<Rightarrow> jsstring"

definition literal :: "jsstring \<Rightarrow> message" where
  \<comment> \<open>a message given in the source; none of them has a \<open>${...}\<close> placeholder\<close>
  "literal m = (\<lambda>path. m)"

definition locale_required :: message where
  "locale_required = (\<lambda>path. ascii (path @ '' is a required field''))"

definition locale_defined :: message where
  "locale_defined = (\<lambda>path. ascii (path @ '' must be defined''))"

definition locale_notNull :: message where
  "locale_notNull = (\<lambda>path. ascii (path @ '' cannot be null''))"

definition locale_email :: message where
  "locale_email = (\<lambda>path. ascii (path @ '' must be a valid email''))"

datatype 'a test = Test message bool "'a js \<Rightarrow> exn + bool"
  \<comment> \<open>message, \<open>skipAbsent\<close>, and the test function\<close>

record 'a schema =
  spec_nullable :: bool
  notNull_message :: message
  spec_optional :: bool
  defined_message :: message
  whiteList :: "('a list \<times> message) option"
  tests :: "'a test list"

definition yup_mixed :: "'a schema" where
  \<comment> \<open>a fresh schema: not nullable, optional, no whitelist, no tests\<close>
  "yup_mixed = \<lparr> spec_nullable = False, notNull_message = locale_notNull,
                 spec_optional = True, defined_message = locale_defined,
                 whiteList = None, tests = [] \<rparr>"

definition yup_string :: "jsstring schema" where
  "yup_string = yup_mixed"

definition yup_boolean :: "bool schema" where
  "yup_boolean = yup_mixed"

definition schema_test :: "'a test \<Rightarrow> 'a schema \<Rightarrow> 'a schema" where
  \<comment> \<open>\<open>Schema.test\<close> appends; no schema of the source repeats a test name\<close>
  "schema_test t s = s\<lparr> tests := tests s @ [t] \<rparr>"

definition schema_nullable :: "'a schema \<Rightarrow> 'a schema" where
  "schema_nullable s = s\<lparr> spec_nullable := True \<rparr>"

definition schema_required :: "message \<Rightarrow> 'a schema \<Rightarrow> 'a schema" where
  \<comment> \<open>\<open>Schema.required\<close>: \<open>nonNullable(message).defined(message)\<close>\<close>
  "schema_required m s =
     s\<lparr> spec_nullable := False, notNull_message := m,
        spec_optional := False, defined_message := m \<rparr>"

definition schema_oneOf :: "'a list \<Rightarrow> message \<Rightarrow> 'a schema \<Rightarrow> 'a schema" where
  "schema_oneOf vals m s = s\<lparr> whiteList := Some (vals, m) \<rparr>"

text \<open>
  The string tests of Yup read \<open>value.length\<close> or call \<open>value.search\<close>; on an absent
  value that throws, and \<open>skipAbsent\<close> is what keeps them from being called there.
\<close>

definition on_string :: "(jsstring \<Rightarrow> bool) \<Rightarrow> jsstring js \<Rightarrow> exn + bool" where
  "on_string f v = (case v of Val s \<Rightarrow> Inr (f s) | _ \<Rightarrow> Inl TypeError)"

definition string_required :: "message \<Rightarrow> jsstring schema \<Rightarrow> jsstring schema" where
  \<comment> \<open>\<open>StringSchema.required\<close>: the base \<open>required\<close>, then the test \<open>!!value.length\<close>\<close>
  "string_required m s =
     schema_test (Test m True (on_string (\<lambda>x. length x \<noteq> 0))) (schema_required m s)"

definition string_min :: "nat \<Rightarrow> message \<Rightarrow> jsstring schema \<Rightarrow> jsstring schema" where
  \<comment> \<open>\<open>value.length >= min\<close>\<close>
  "string_min n m s = schema_test (Test m True (on_string (\<lambda>x. n \<le> length x))) s"

definition string_matches :: "regex \<Rightarrow> message \<Rightarrow> jsstring schema \<Rightarrow> jsstring schema" where
  \<comment> \<open>\<open>value.search(regex) !== -1\<close> (\<open>excludeEmptyString\<close> is false)\<close>
  "string_matches r m s = schema_test (Test m True (on_string (search r))) s"

definition string_email :: "message \<Rightarrow> jsstring schema \<Rightarrow> jsstring schema" where
  \<comment> \<open>\<open>matches(rEmail, {excludeEmptyString: true})\<close>\<close>
  "string_email m s =
     schema_test (Test m True (on_string (\<lambda>x. x = [] \<or> search rEmail x))) s"

definition chain :: "'a \<Rightarrow> ('a \<Rightarrow> 'a) list \<Rightarrow> 'a" where
  \<comment> \<open>\<open>chain s [f, g]\<close> is the method chain \<open>s.f().g()\<close>\<close>
  "chain s fs = foldl (\<lambda>x f. f x) s fs"

subsection \<open>Validation of one value\<close>

definition internal_errors :: "string \<Rightarrow> 'a schema \<Rightarrow> 'a js \<Rightarrow> jsstring list" where
  \<comment> \<open>the internal tests \<open>nullability\<close>, \<open>whiteList\<close> (which skips an absent value)
     and \<open>optionality\<close>; the type check holds by the type of the value\<close>
  "internal_errors path s v =
     (case v of Null \<Rightarrow> if spec_nullable s then [] else [notNull_message s path] | _ \<Rightarrow> [])
     @ (case whiteList s of
          None \<Rightarrow> []
        | Some (vals, m) \<Rightarrow>
            (case v of Val x \<Rightarrow> if x \<in> set vals then [] else [m path] | _ \<Rightarrow> []))
     @ (case v of Undefined \<Rightarrow> if spec_optional s then [] else [defined_message s path]
        | _ \<Rightarrow> [])"

fun run_test :: "string \<Rightarrow> 'a test \<Rightarrow> 'a js \<Rightarrow> exn + jsstring list" where
  "run_test path (Test m skip f) v =
     (if skip \<and> isAbsent v then Inr []
      else (case f v of
              Inl e \<Rightarrow> Inl e
            | Inr ok \<Rightarrow> Inr (if ok then [] else [m path])))"

fun run_tests :: "string \<Rightarrow> 'a test list \<Rightarrow> 'a js \<Rightarrow> exn + jsstring list" where
  \<comment> \<open>\<open>abortEarly: false\<close>: every test runs, the messages are kept in test order\<close>
  "run_tests path [] v = Inr []"
| "run_tests path (t # ts) v =
     (case run_test path t v of
        Inl e \<Rightarrow> Inl e
      | Inr es \<Rightarrow>
          (case run_tests path ts v of
             Inl e \<Rightarrow> Inl e
           | Inr es' \<Rightarrow> Inr (es @ es')))"

definition validate :: "string \<Rightarrow> 'a schema \<Rightarrow> 'a js \<Rightarrow> exn + jsstring list" where
  \<comment> \<open>\<open>Schema._validate\<close>: when an internal test fails, the other tests do not run\<close>
  "validate path s v =
     (let initialErrors = internal_errors path s v
      in if initialErrors \<noteq> [] then Inr initialErrors else run_tests path (tests s) v)"

subsection \<open>Object schemas\<close>

text \<open>
  An object schema validates each of its fields at the field's value; the \<open>inner\<close>
  errors of the resulting \<open>ValidationError\<close> are the pairs of path and message, in the
  order of the fields.
\<close>

definition field :: "string \<Rightarrow> 'a schema \<Rightarrow> 'a js \<Rightarrow> string \<times> (exn + jsstring list)" where
  "field path s v = (path, validate path s v)"

fun object_validate :: "(string \<times> (exn + jsstring list)) list \<Rightarrow> exn + (string \<times> jsstring) list" where
  "object_validate [] = Inr []"
| "object_validate ((path, r) # fs) =
     (case r of
        Inl e \<Rightarrow> Inl e
      | Inr ms \<Rightarrow>
          (case object_validate fs of
             Inl e \<Rightarrow> Inl e
           | Inr inner \<Rightarrow> Inr (map (Pair path) ms @ inner)))"

section \<open>The forms of the source\<close>

text \<open>
  \<open>interface ContactFormValues\<close> and \<open>interface NewsletterFormValues\<close>. The records
  are polymorphic in the types of their fields, so that the same record type holds the
  values of a form (\<open>string\<close>, \<open>File | null\<close>, \<open>boolean\<close>), the values as Formik
  hands them to Yup, and the shape of an object schema (one schema for each field).

  Two components define these forms, each with its own schemas:
  \<open>src/components/ContactForm.tsx\<close> and the file \<open>src/unnamed/part_000\<close>. The module
  \<open>src/validation/contactSchema.ts\<close> is imported by neither; its shape has no \<open>file\<close>
  and no \<open>nda\<close> (it has \<open>protectData\<close>), so it validates another record and is
  not modelled.
\<close>

datatype File = File (size_of: nat)
  \<comment> \<open>a \<open>File\<close> with its \<open>size\<close> in bytes; nothing else of it is read\<close>

record 's NewsletterFormValues =
  email :: 's

record ('s, 'f, 'b) ContactFormValues =
  companyName :: 's
  natureOfBusiness :: 's
  address :: 's
  postcode :: 's
  contactName :: 's
  contactPhone :: 's
  email :: 's
  linkedin :: 's
  idea :: 's
  "file" :: 'f
  nda :: 'b

type_synonym ContactRecord = "(jsstring, File option, bool) ContactFormValues"
  \<comment> \<open>\<open>file\<close>: \<open>None\<close> is \<open>null\<close>\<close>

type_synonym NewsletterRecord = "jsstring NewsletterFormValues"

subsection \<open>The test functions written in the source\<close>

definition truthy :: "jsstring js \<Rightarrow> bool" where
  \<comment> \<open>\<open>!!value\<close> for \<open>value: string | undefined\<close>\<close>
  "truthy v = (case v of Val s \<Rightarrow> s \<noteq> [] | _ \<Rightarrow> False)"

definition call_trim :: "jsstring js \<Rightarrow> exn + jsstring" where
  \<comment> \<open>\<open>value.trim()\<close>: a method call on \<open>undefined\<close> or \<open>null\<close> throws\<close>
  "call_trim v = (case v of Val s \<Rightarrow> Inr (trim s) | _ \<Rightarrow> Inl TypeError)"

definition full_name :: "jsstring js \<Rightarrow> exn + bool" where
  \<comment> \<open>\<open>(value) => !!value && value.trim().split(" ").length >= 2\<close>\<close>
  "full_name v =
     (if \<not> truthy v then Inr False
      else (case call_trim v of
              Inl e \<Rightarrow> Inl e
            | Inr t \<Rightarrow> Inr (2 \<le> length (js_split SPACE t))))"

definition fileSize :: "File js \<Rightarrow> exn + bool" where
  \<comment> \<open>\<open>(value) => { if (!value) return true;
       return value instanceof File && value.size <= 10 * 1024 * 1024; }\<close>\<close>
  "fileSize v =
     (case v of
        Val f \<Rightarrow> Inr (size_of f \<le> 10 * 1024 * 1024)
      | _ \<Rightarrow> Inr True)"

subsection \<open>The schemas of \<open>src/components/ContactForm.tsx\<close>\<close>

definition postcode_message :: jsstring where
  \<comment> \<open>\<open>"Postcode must be 4-10 digits"\<close>, with the en dash of the source\<close>
  "postcode_message = ascii ''Postcode must be 4'' @ [0x2013] @ ascii ''10 digits''"

definition contactSchema :: "(jsstring schema, File schema, bool schema) ContactFormValues" where
  "contactSchema = \<lparr>
     companyName = chain yup_string
       [string_min 2 (literal (ascii ''Company name must be at least 2 characters'')),
        string_required (literal (ascii ''Company name is required''))],
     natureOfBusiness = yup_string,
     address = chain yup_string
       [string_min 5 (literal (ascii ''Address must be at least 5 characters'')),
        string_required (literal (ascii ''Address is required''))],
     postcode = chain yup_string
       [string_matches (Repeat 4 (Some 10) (Class isDigit)) (literal postcode_message),
        string_required (literal (ascii ''Postcode is required''))],
     contactName = chain yup_string
       [schema_test (Test (literal (ascii ''Please enter at least first and last name''))
                      False full_name),
        string_required (literal (ascii ''Contact name is required''))],
     contactPhone = chain yup_string
       [string_matches (Repeat 10 None (Class isDigit))
          (literal (ascii ''Contact phone must be at least 10 digits'')),
        string_required (literal (ascii ''Contact phone is required''))],
     email = chain yup_string
       [string_email (literal (ascii ''Invalid email address'')),
        string_required (literal (ascii ''Email is required''))],
     linkedin = yup_string,
     idea = chain yup_string
       [string_min 30 (literal (ascii ''Idea description must be at least 30 characters'')),
        string_required (literal (ascii ''Idea is required''))],
     file = chain yup_mixed
       [schema_nullable,
        schema_test (Test (literal (ascii ''File size is too large (max 10MB)''))
                      False fileSize)],
     nda = chain yup_boolean
       [schema_oneOf [True] (literal (ascii ''You must agree to NDA'')),
        schema_required (literal (ascii ''You must agree to NDA''))] \<rparr>"

definition newsletterSchema :: "jsstring schema NewsletterFormValues" where
  "newsletterSchema = \<lparr>
     NewsletterFormValues.email = chain yup_string
       [string_email (literal (ascii ''Invalid email'')),
        string_required (literal (ascii ''Email is required''))] \<rparr>"

subsection \<open>The schemas of the second component (\<open>src/unnamed/part_000\<close>)\<close>

definition contactSchema_part_000 ::
  "(jsstring schema, File schema, bool schema) ContactFormValues" where
  "contactSchema_part_000 = \<lparr>
     companyName = chain yup_string
       [string_min 2 (literal (ascii ''Company name must be at least 2 characters'')),
        string_required (literal (ascii ''Company name is required''))],
     natureOfBusiness = yup_string,
     address = chain yup_string
       [string_min 5 (literal (ascii ''Address must be at least 5 characters'')),
        string_required (literal (ascii ''Address is required''))],
     postcode = chain yup_string
       [string_required (literal (ascii ''Postcode is required''))],
     contactName = chain yup_string
       [schema_test (Test (literal (ascii ''Please enter at least first and last name''))
                      False full_name),
        string_required (literal (ascii ''Contact name is required''))],
     contactPhone = chain yup_string
       [string_required (literal (ascii ''Contact phone is required''))],
     email = chain yup_string
       [string_email (literal (ascii ''Invalid email address'')),
        string_required (literal (ascii ''Email is required''))],
     linkedin = yup_string,
     idea = chain yup_string
       [string_min 30 (literal (ascii ''Idea description must be at least 30 characters'')),
        string_required (literal (ascii ''Idea is required''))],
     file = chain yup_mixed
       [schema_nullable,
        schema_test (Test (literal (ascii ''File size is too large (max 10MB)''))
                      False fileSize)],
     nda = chain yup_boolean
       [schema_oneOf [True] (literal (ascii ''You must agree to NDA'')),
        schema_required (literal (ascii ''You must agree to NDA''))] \<rparr>"

definition newsletterSchema_part_000 :: "jsstring schema NewsletterFormValues" where
  \<comment> \<open>\<open>Yup.string().email().required()\<close>: the messages are Yup's defaults\<close>
  "newsletterSchema_part_000 = \<lparr>
     NewsletterFormValues.email = chain yup_string
       [string_email locale_email, string_required locale_required] \<rparr>"

subsection \<open>Validation of a form\<close>

definition contact_fields ::
  "(jsstring schema, File schema, bool schema) ContactFormValues \<Rightarrow>
   (jsstring js, File js, bool js) ContactFormValues \<Rightarrow>
   (string \<times> (exn + jsstring list)) list" where
  \<comment> \<open>each field of the shape at the value of the same key\<close>
  "contact_fields shape v =
     [field ''companyName'' (companyName shape) (companyName v),
      field ''natureOfBusiness'' (natureOfBusiness shape) (natureOfBusiness v),
      field ''address'' (address shape) (address v),
      field ''postcode'' (postcode shape) (postcode v),
      field ''contactName'' (contactName shape) (contactName v),
      field ''contactPhone'' (contactPhone shape) (contactPhone v),
      field ''email'' (email shape) (email v),
      field ''linkedin'' (linkedin shape) (linkedin v),
      field ''idea'' (idea shape) (idea v),
      field ''file'' (file shape) (file v),
      field ''nda'' (nda shape) (nda v)]"

definition newsletter_fields ::
  "jsstring schema NewsletterFormValues \<Rightarrow> jsstring js NewsletterFormValues \<Rightarrow>
   (string \<times> (exn + jsstring list)) list" where
  "newsletter_fields shape v =
     [field ''email'' (NewsletterFormValues.email shape) (NewsletterFormValues.email v)]"

text \<open>
  Formik: \<open>prepareDataForValidation\<close> replaces every \<open>''\<close> by \<open>undefined\<close> and leaves
  other values as they are; \<open>validateYupSchema\<close> validates the result with
  \<open>abortEarly: false\<close>; \<open>yupToFormErrors\<close> keeps, for each path, the first message
  of the inner errors. The errors object is an association list (the keys in insertion
  order), and \<open>isValid\<close> is \<open>Object.keys(errors).length === 0\<close>.
\<close>

definition prepare_string :: "jsstring \<Rightarrow> jsstring js" where
  \<comment> \<open>\<open>values[key] !== '' ? values[key] : undefined\<close>\<close>
  "prepare_string s = (if s \<noteq> [] then Val s else Undefined)"

definition prepare_file :: "File option \<Rightarrow> File js" where
  "prepare_file f = (case f of None \<Rightarrow> Null | Some x \<Rightarrow> Val x)"

definition prepareDataForValidation ::
  "ContactRecord \<Rightarrow> (jsstring js, File js, bool js) ContactFormValues" where
  "prepareDataForValidation v = \<lparr>
     companyName = prepare_string (companyName v),
     natureOfBusiness = prepare_string (natureOfBusiness v),
     address = prepare_string (address v),
     postcode = prepare_string (postcode v),
     contactName = prepare_string (contactName v),
     contactPhone = prepare_string (contactPhone v),
     email = prepare_string (email v),
     linkedin = prepare_string (linkedin v),
     idea = prepare_string (idea v),
     file = prepare_file (file v),
     nda = Val (nda v) \<rparr>"

definition prepareNewsletter :: "NewsletterRecord \<Rightarrow> jsstring js NewsletterFormValues" where
  "prepareNewsletter v =
     \<lparr> NewsletterFormValues.email = prepare_string (NewsletterFormValues.email v) \<rparr>"

type_synonym FormikErrors = "(string \<times> jsstring) list"

definition yupToFormErrors :: "(string \<times> jsstring) list \<Rightarrow> FormikErrors" where
  \<comment> \<open>\<open>for (let err of yupError.inner)
         if (!getIn(errors, err.path)) errors = setIn(errors, err.path, err.message)\<close>\<close>
  "yupToFormErrors inner =
     foldl (\<lambda>errors (path, m).
              (case map_of errors path of
                 None \<Rightarrow> AList.update path m errors
               | Some m' \<Rightarrow> if m' = [] then AList.update path m errors else errors))
           [] inner"

definition isValid :: "FormikErrors \<Rightarrow> bool" where
  "isValid errors \<longleftrightarrow> length (map fst errors) = 0"

definition runValidationSchema ::
  "(string \<times> (exn + jsstring list)) list \<Rightarrow> exn + FormikErrors" where
  "runValidationSchema fs =
     (case object_validate fs of
        Inl e \<Rightarrow> Inl e
      | Inr inner \<Rightarrow> Inr (yupToFormErrors inner))"

definition validateContact :: "ContactRecord \<Rightarrow> exn + FormikErrors" where
  \<comment> \<open>the contact form of \<open>ContactForm.tsx\<close>\<close>
  "validateContact v =
     runValidationSchema (contact_fields contactSchema (prepareDataForValidation v))"

definition validateContact_part_000 :: "ContactRecord \<Rightarrow> exn + FormikErrors" where
  \<comment> \<open>the contact form of the second component\<close>
  "validateContact_part_000 v =
     runValidationSchema (contact_fields contactSchema_part_000 (prepareDataForValidation v))"

definition validateNewsletter :: "NewsletterRecord \<Rightarrow> exn + FormikErrors" where
  "validateNewsletter v =
     runValidationSchema (newsletter_fields newsletterSchema (prepareNewsletter v))"

definition validateNewsletter_part_000 :: "NewsletterRecord \<Rightarrow> exn + FormikErrors" where
  "validateNewsletter_part_000 v =
     runValidationSchema (newsletter_fields newsletterSchema_part_000 (prepareNewsletter v))"

definition scenario :: ContactRecord where
  \<comment> \<open>the record of the end-to-end scenario\<close>
  "scenario = \<lparr>
     companyName = ascii ''Ac'',
     natureOfBusiness = [],
     address = ascii ''123 Main St'',
     postcode = ascii ''12345'',
     contactName = ascii ''Jo Lee'',
     contactPhone = ascii ''1234567890'',
     email = ascii ''jo@x.com'',
     linkedin = [],
     idea = replicate 30 0x78,
     file = None,
     nda = True \<rparr>"

section \<open>The rules that the schemas implement\<close>

text \<open>
  The rule table of the contact form, as a function of the record: for each of the
  eleven fields, the message of the field or \<open>None\<close> where the field is valid. A field
  with a required check and a shape check has the required message on the empty string
  and the shape message on a non-empty string that fails the shape check. The shape
  checks of \<open>postcode\<close> and \<open>contactPhone\<close> are parameters: the two components
  differ in them and in nothing else.
\<close>

definition rule :: "jsstring \<Rightarrow> bool \<Rightarrow> jsstring \<Rightarrow> jsstring \<Rightarrow> jsstring option" where
  "rule s shape_ok required_message shape_message =
     (if s = [] then Some required_message
      else if shape_ok then None
      else Some shape_message)"

definition postcode_ok :: "jsstring \<Rightarrow> bool" where
  \<comment> \<open>4 to 10 decimal digits and nothing else\<close>
  "postcode_ok s \<longleftrightarrow> 4 \<le> length s \<and> length s \<le> 10 \<and> list_all isDigit s"

definition phone_ok :: "jsstring \<Rightarrow> bool" where
  \<comment> \<open>at least 10 decimal digits and nothing else\<close>
  "phone_ok s \<longleftrightarrow> 10 \<le> length s \<and> list_all isDigit s"

definition contact_table ::
  "(jsstring \<Rightarrow> bool) \<Rightarrow> (jsstring \<Rightarrow> bool) \<Rightarrow> ContactRecord \<Rightarrow>
   (string \<times> jsstring option) list" where
  "contact_table postcode_shape phone_shape v =
     [(''companyName'',
         rule (companyName v) (2 \<le> length (companyName v))
           (ascii ''Company name is required'')
           (ascii ''Company name must be at least 2 characters'')),
      (''natureOfBusiness'', None),
      (''address'',
         rule (address v) (5 \<le> length (address v))
           (ascii ''Address is required'')
           (ascii ''Address must be at least 5 characters'')),
      (''postcode'',
         rule (postcode v) (postcode_shape (postcode v))
           (ascii ''Postcode is required'')
           postcode_message),
      (''contactName'',
         rule (contactName v) (2 \<le> length (js_split SPACE (trim (contactName v))))
           (ascii ''Contact name is required'')
           (ascii ''Please enter at least first and last name'')),
      (''contactPhone'',
         rule (contactPhone v) (phone_shape (contactPhone v))
           (ascii ''Contact phone is required'')
           (ascii ''Contact phone must be at least 10 digits'')),
      (''email'',
         rule (email v) (search rEmail (email v))
           (ascii ''Email is required'')
           (ascii ''Invalid email address'')),
      (''linkedin'', None),
      (''idea'',
         rule (idea v) (30 \<le> length (idea v))
           (ascii ''Idea is required'')
           (ascii ''Idea description must be at least 30 characters'')),
      (''file'',
         (case file v of
            None \<Rightarrow> None
          | Some f \<Rightarrow>
              if size_of f \<le> 10 * 1024 * 1024 then None
              else Some (ascii ''File size is too large (max 10MB)''))),
      (''nda'', if nda v then None else Some (ascii ''You must agree to NDA''))]"

fun present :: "(string \<times> jsstring option) list \<Rightarrow> FormikErrors" where
  \<comment> \<open>the entries that carry a message\<close>
  "present [] = []"
| "present ((path, None) # t) = present t"
| "present ((path, Some m) # t) = (path, m) # present t"

fun msgs :: "jsstring option \<Rightarrow> jsstring list" where
  "msgs None = []"
| "msgs (Some m) = [m]"

definition field_messages :: "(string \<times> jsstring) list \<Rightarrow> string \<Rightarrow> jsstring list" where
  \<comment> \<open>all the messages that the inner errors carry for a path\<close>
  "field_messages inner path = map snd (filter (\<lambda>e. fst e = path) inner)"

text \<open>
  The rule of \<open>contactName\<close> in the words of the specification: the trimmed value
  splits on whitespace into at least two tokens. \<open>ws_tokens\<close> lists the maximal runs
  of code units that are not whitespace.
\<close>

function ws_tokens :: "jsstring \<Rightarrow> jsstring list" where
  "ws_tokens [] = []"
| "ws_tokens (c # cs) =
     (if isWhiteSpace c then ws_tokens cs
      else (c # takeWhile (\<lambda>x. \<not> isWhiteSpace x) cs)
             # ws_tokens (dropWhile (\<lambda>x. \<not> isWhiteSpace x) cs))"
  by pat_completeness auto
termination
  by (relation "measure length") (auto simp: less_Suc_eq_le length_dropWhile_le)

definition spec_contactName_valid :: "jsstring \<Rightarrow> bool" where
  "spec_contactName_valid s \<longleftrightarrow> s \<noteq> [] \<and> 2 \<le> length (ws_tokens (trim s))"

section \<open>Regular expressions of one repeated class\<close>

lemma iter_Class_Nil:
  "[] \<in> set (iter (rmatch (Class p)) lo hi s)
     \<longleftrightarrow> lo \<le> length s \<and> length s \<le> hi \<and> list_all p s"
proof (induction hi arbitrary: lo s)
  case 0
  then show ?case by auto
next
  case (Suc hi)
  show ?case
  proof (cases s)
    case Nil
    then show ?thesis by simp
  next
    case (Cons c cs)
    then show ?thesis using Suc.IH [of "lo - 1" cs] by auto
  qed
qed

lemma search_Repeat_bounded:
  "search (Repeat lo (Some hi) (Class p)) s
     \<longleftrightarrow> lo \<le> length s \<and> length s \<le> hi \<and> list_all p s"
  by (simp add: search_def iter_Class_Nil del: rmatch.simps(1))

lemma search_Repeat_unbounded:
  "search (Repeat lo None (Class p)) s \<longleftrightarrow> lo \<le> length s \<and> list_all p s"
  by (auto simp add: search_def iter_Class_Nil simp del: rmatch.simps(1))

lemma js_split_length: "length (js_split sep s) = Suc (count_list s sep)"
  by (induction s) (auto split: list.splits)

lemma js_split_two: "2 \<le> length (js_split sep s) \<longleftrightarrow> sep \<in> set s"
  by (simp add: js_split_length count_list_0_iff flip: not_less_eq_eq)

section \<open>What each field schema reports\<close>

lemmas yup_defs = validate_def internal_errors_def chain_def yup_string_def yup_boolean_def
  yup_mixed_def schema_test_def schema_nullable_def schema_required_def schema_oneOf_def
  string_required_def string_min_def string_matches_def string_email_def on_string_def
  isAbsent_def literal_def prepare_string_def prepare_file_def rule_def

lemma validate_min_required:
  "validate p (chain yup_string [string_min n (literal shp), string_required (literal req)])
     (prepare_string s) = Inr (msgs (rule s (n \<le> length s) req shp))"
  by (simp add: yup_defs)

lemma validate_matches_required:
  "validate p (chain yup_string [string_matches r (literal shp), string_required (literal req)])
     (prepare_string s) = Inr (msgs (rule s (search r s) req shp))"
  by (simp add: yup_defs)

lemma validate_email_required:
  "validate p (chain yup_string [string_email (literal shp), string_required (literal req)])
     (prepare_string s) = Inr (msgs (rule s (search rEmail s) req shp))"
  by (simp add: yup_defs)

lemma validate_email_required_default:
  "validate p (chain yup_string [string_email locale_email, string_required locale_required])
     (prepare_string s)
   = Inr (msgs (rule s (search rEmail s) (locale_required p) (locale_email p)))"
  by (simp add: yup_defs)

lemma validate_full_name_required:
  "validate p (chain yup_string
       [schema_test (Test (literal shp) False full_name), string_required (literal req)])
     (prepare_string s)
   = Inr (msgs (rule s (2 \<le> length (js_split SPACE (trim s))) req shp))"
  by (simp add: yup_defs full_name_def truthy_def call_trim_def)

lemma validate_only_required:
  "validate p (chain yup_string [string_required (literal req)]) (prepare_string s)
   = Inr (msgs (if s = [] then Some req else None))"
  by (simp add: yup_defs)

lemma rule_True: "rule s True req shp = (if s = [] then Some req else None)"
  by (simp add: rule_def)

lemma validate_plain_string: "validate p yup_string (prepare_string s) = Inr []"
  by (simp add: yup_defs)

lemma validate_file:
  "validate p (chain yup_mixed [schema_nullable, schema_test (Test (literal m) False fileSize)])
     (prepare_file f)
   = Inr (msgs (case f of
                  None \<Rightarrow> None
                | Some x \<Rightarrow> if size_of x \<le> 10 * 1024 * 1024 then None else Some m))"
  by (simp add: yup_defs fileSize_def split: option.splits)

lemma validate_nda:
  "validate p (chain yup_boolean
       [schema_oneOf [True] (literal m), schema_required (literal m')]) (Val b)
   = Inr (msgs (if b then None else Some m))"
  by (simp add: yup_defs)

lemmas validate_simps = validate_min_required validate_matches_required
  validate_email_required validate_full_name_required
  validate_plain_string validate_file validate_nda

section \<open>From the inner errors to the errors object\<close>

lemma present_Cons: "present ((p, e) # t) = map (Pair p) (msgs e) @ present t"
  by (cases e) simp_all

lemma present_keys: "set (map fst (present t)) \<subseteq> set (map fst t)"
  by (induction t rule: present.induct) auto

lemma present_distinct: "distinct (map fst t) \<Longrightarrow> distinct (map fst (present t))"
proof (induction t rule: present.induct)
  case (3 path m t)
  then show ?case using present_keys [of t] by auto
qed simp_all

lemma map_of_present:
  "distinct (map fst t) \<Longrightarrow> map_of (present t) p = Option.bind (map_of t p) (\<lambda>e. e)"
proof (induction t rule: present.induct)
  case (2 path t)
  then have "map_of t path = None" by (simp add: map_of_eq_None_iff)
  with 2 show ?case by simp
qed simp_all

lemma field_messages_present:
  "distinct (map fst t) \<Longrightarrow>
   field_messages (present t) p = msgs (Option.bind (map_of t p) (\<lambda>e. e))"
proof (induction t rule: present.induct)
  case (2 path t)
  then have none: "map_of t path = None" by (simp add: map_of_eq_None_iff)
  from 2 have IH: "field_messages (present t) p = msgs (Option.bind (map_of t p) (\<lambda>e. e))"
    by simp
  show ?case
  proof (cases "p = path")
    case True
    with IH none show ?thesis by simp
  next
    case False
    with IH show ?thesis by simp
  qed
next
  case (3 path m t)
  then have none: "map_of t path = None" by (simp add: map_of_eq_None_iff)
  from 3 have IH: "field_messages (present t) p = msgs (Option.bind (map_of t p) (\<lambda>e. e))"
    by simp
  show ?case
  proof (cases "p = path")
    case True
    with IH none show ?thesis by (simp add: field_messages_def)
  next
    case False
    with IH show ?thesis by (auto simp add: field_messages_def)
  qed
qed (simp add: field_messages_def)

lemma update_fresh: "k \<notin> fst ` set al \<Longrightarrow> AList.update k v al = al @ [(k, v)]"
  by (induction al) auto

lemma foldl_distinct:
  "distinct (map fst (acc @ inner)) \<Longrightarrow>
   foldl (\<lambda>errors (path, m).
            (case map_of errors path of
               None \<Rightarrow> AList.update path m errors
             | Some m' \<Rightarrow> if m' = [] then AList.update path m errors else errors))
         acc inner
   = acc @ inner"
proof (induction inner arbitrary: acc)
  case Nil
  then show ?case by simp
next
  case (Cons e inner)
  obtain p m where e: "e = (p, m)" by (cases e)
  from Cons.prems e have fresh: "p \<notin> fst ` set acc" by auto
  then have "map_of acc p = None" by (simp add: map_of_eq_None_iff)
  moreover have "distinct (map fst ((acc @ [(p, m)]) @ inner))"
    using Cons.prems e by auto
  ultimately show ?case using Cons.IH [of "acc @ [(p, m)]"] fresh e
    by (simp add: update_fresh)
qed

lemma yupToFormErrors_distinct:
  "distinct (map fst inner) \<Longrightarrow> yupToFormErrors inner = inner"
  using foldl_distinct [of "[]" inner] by (simp add: yupToFormErrors_def)

section \<open>The two contact validators in closed form\<close>

lemma contact_table_distinct: "distinct (map fst (contact_table pc ph v))"
  by (simp add: contact_table_def)

lemma contact_table_keys:
  "map fst (contact_table pc ph v) =
     [''companyName'', ''natureOfBusiness'', ''address'', ''postcode'', ''contactName'',
      ''contactPhone'', ''email'', ''linkedin'', ''idea'', ''file'', ''nda'']"
  by (simp add: contact_table_def)

lemma contact_inner:
  "object_validate (contact_fields contactSchema (prepareDataForValidation v))
     = Inr (present (contact_table postcode_ok phone_ok v))"
  by (simp add: contact_fields_def field_def contactSchema_def prepareDataForValidation_def
      contact_table_def validate_simps search_Repeat_bounded search_Repeat_unbounded
      postcode_ok_def phone_ok_def present_Cons del: present.simps(2,3))

lemma contact_inner_part_000:
  "object_validate (contact_fields contactSchema_part_000 (prepareDataForValidation v))
     = Inr (present (contact_table (\<lambda>s. True) (\<lambda>s. True) v))"
  by (simp add: contact_fields_def field_def contactSchema_part_000_def
      prepareDataForValidation_def contact_table_def validate_simps
      validate_only_required rule_True present_Cons del: present.simps(2,3))

lemma validateContact_eq:
  "validateContact v = Inr (present (contact_table postcode_ok phone_ok v))"
  by (simp add: validateContact_def runValidationSchema_def contact_inner
      yupToFormErrors_distinct present_distinct contact_table_distinct)

lemma validateContact_part_000_eq:
  "validateContact_part_000 v = Inr (present (contact_table (\<lambda>s. True) (\<lambda>s. True) v))"
  by (simp add: validateContact_part_000_def runValidationSchema_def contact_inner_part_000
      yupToFormErrors_distinct present_distinct contact_table_distinct)

lemma contact_entry:
  "map_of (present (contact_table pc ph v)) p
     = Option.bind (map_of (contact_table pc ph v) p) (\<lambda>e. e)"
  by (simp add: map_of_present contact_table_distinct)

section \<open>Trimmed strings and whitespace tokens\<close>

lemma trim_ends:
  "trim s = [] \<or> (\<not> isWhiteSpace (hd (trim s)) \<and> \<not> isWhiteSpace (last (trim s)))"
proof (cases "trim s = []")
  case True
  then show ?thesis by simp
next
  case False
  define u where "u = dropWhile isWhiteSpace s"
  define w where "w = dropWhile isWhiteSpace (rev u)"
  have t: "trim s = rev w" by (simp add: trim_def u_def w_def)
  with False have w: "w \<noteq> []" by simp
  then have hw: "\<not> isWhiteSpace (hd w)" unfolding w_def by (rule hd_dropWhile)
  from w have "rev u \<noteq> []" unfolding w_def by auto
  then have u: "u \<noteq> []" by simp
  then have hu: "\<not> isWhiteSpace (hd u)" unfolding u_def by (rule hd_dropWhile)
  have "last w = last (rev u)"
    using w unfolding w_def
    by (metis append_take_drop_id dropWhile_eq_drop last_appendR)
  then have "last w = hd u" using u by (simp add: last_rev)
  with hu hw t w show ?thesis by (simp add: hd_rev last_rev)
qed

lemma ws_tokens_nonempty: "\<exists>y \<in> set u. \<not> isWhiteSpace y \<Longrightarrow> ws_tokens u \<noteq> []"
  by (induction u rule: ws_tokens.induct) auto

lemma ws_tokens_two:
  assumes "t \<noteq> []" "\<not> isWhiteSpace (hd t)" "\<not> isWhiteSpace (last t)"
    and "x \<in> set t" "isWhiteSpace x"
  shows "2 \<le> length (ws_tokens t)"
proof -
  obtain c cs where t: "t = c # cs" using assms(1) by (cases t) auto
  with assms have c: "\<not> isWhiteSpace c" and x: "x \<in> set cs" by auto
  define d where "d = dropWhile (\<lambda>x. \<not> isWhiteSpace x) cs"
  have d: "d \<noteq> []" using x assms(5) unfolding d_def by auto
  from x have cs: "cs \<noteq> []" by auto
  have "last d = last cs"
    using d unfolding d_def by (metis append_take_drop_id dropWhile_eq_drop last_appendR)
  also have "\<dots> = last t" using cs t by simp
  finally have "\<not> isWhiteSpace (last d)" using assms(3) by simp
  then have "\<exists>y \<in> set d. \<not> isWhiteSpace y" using d last_in_set by blast
  then have "ws_tokens d \<noteq> []" by (rule ws_tokens_nonempty)
  then have "1 \<le> length (ws_tokens d)" by (cases "ws_tokens d") auto
  then show ?thesis using c t by (simp add: d_def)
qed

lemma isWhiteSpace_SPACE: "isWhiteSpace SPACE"
  by (simp add: isWhiteSpace_def SPACE_def)

lemma split_valid_imp_spec_valid:
  "s \<noteq> [] \<Longrightarrow> 2 \<le> length (js_split SPACE (trim s)) \<Longrightarrow> spec_contactName_valid s"
proof -
  assume s: "s \<noteq> []" and "2 \<le> length (js_split SPACE (trim s))"
  then have mem: "SPACE \<in> set (trim s)" by (simp add: js_split_two)
  then have ne: "trim s \<noteq> []" by auto
  with trim_ends [of s]
  have "\<not> isWhiteSpace (hd (trim s))" "\<not> isWhiteSpace (last (trim s))" by auto
  with ne mem have "2 \<le> length (ws_tokens (trim s))"
    using isWhiteSpace_SPACE by (intro ws_tokens_two [of "trim s" SPACE])
  with s show ?thesis by (simp add: spec_contactName_valid_def)
qed

section \<open>Entries of the errors object\<close>

lemma entry_simps:
  "map_of (present (contact_table pc ph v)) ''companyName'' = rule (companyName v) (2 \<le> length (companyName v))
           (ascii ''Company name is required'')
           (ascii ''Company name must be at least 2 characters'')"
  "map_of (present (contact_table pc ph v)) ''postcode'' = rule (postcode v) (pc (postcode v))
           (ascii ''Postcode is required'') postcode_message"
  "map_of (present (contact_table pc ph v)) ''contactName'' =
     rule (contactName v) (2 \<le> length (js_split SPACE (trim (contactName v))))
           (ascii ''Contact name is required'')
           (ascii ''Please enter at least first and last name'')"
  "map_of (present (contact_table pc ph v)) ''file'' =
         (case file v of
            None \<Rightarrow> None
          | Some f \<Rightarrow>
              if size_of f \<le> 10 * 1024 * 1024 then None
              else Some (ascii ''File size is too large (max 10MB)''))"
  "map_of (present (contact_table pc ph v)) ''nda'' =
      (if nda v then None else Some (ascii ''You must agree to NDA''))"
  by (simp_all add: contact_entry) (simp_all add: contact_table_def)

lemma inner_simps:
  "field_messages (present (contact_table pc ph v)) ''companyName'' =
     msgs (rule (companyName v) (2 \<le> length (companyName v))
           (ascii ''Company name is required'')
           (ascii ''Company name must be at least 2 characters''))"
  "field_messages (present (contact_table pc ph v)) ''address'' =
     msgs (rule (address v) (5 \<le> length (address v))
           (ascii ''Address is required'')
           (ascii ''Address must be at least 5 characters''))"
  "field_messages (present (contact_table pc ph v)) ''postcode'' =
     msgs (rule (postcode v) (pc (postcode v))
           (ascii ''Postcode is required'') postcode_message)"
  "field_messages (present (contact_table pc ph v)) ''contactName'' =
     msgs (rule (contactName v) (2 \<le> length (js_split SPACE (trim (contactName v))))
           (ascii ''Contact name is required'')
           (ascii ''Please enter at least first and last name''))"
  "field_messages (present (contact_table pc ph v)) ''contactPhone'' =
     msgs (rule (contactPhone v) (ph (contactPhone v))
           (ascii ''Contact phone is required'')
           (ascii ''Contact phone must be at least 10 digits''))"
  "field_messages (present (contact_table pc ph v)) ''email'' =
     msgs (rule (email v) (search rEmail (email v))
           (ascii ''Email is required'')
           (ascii ''Invalid email address''))"
  "field_messages (present (contact_table pc ph v)) ''idea'' =
     msgs (rule (idea v) (30 \<le> length (idea v))
           (ascii ''Idea is required'')
           (ascii ''Idea description must be at least 30 characters''))"
  by (simp_all add: field_messages_present contact_table_distinct)
     (simp_all add: contact_table_def)

lemmas eval_defs = scenario_def ascii_def trim_def SPACE_def isWhiteSpace_def isDigit_def
  postcode_message_def spec_contactName_valid_def

lemma email_examples:
  "search rEmail (ascii ''a@b.com'')"
  "search rEmail (ascii ''jo@x.com'')"
  "\<not> search rEmail (ascii ''not-an-email'')"
  by code_simp+

section \<open>No field validation throws\<close>

lemma validate_string_total:
  "\<exists>ms. validate p yup_string x = Inr ms"
  "\<exists>ms. validate p (chain yup_string [string_min n m1, string_required m2]) x = Inr ms"
  "\<exists>ms. validate p (chain yup_string [string_matches r m1, string_required m2]) x = Inr ms"
  "\<exists>ms. validate p (chain yup_string [string_required m2]) x = Inr ms"
  "\<exists>ms. validate p (chain yup_string [string_email m1, string_required m2]) x = Inr ms"
  "\<exists>ms. validate p (chain yup_string [schema_test (Test m1 False full_name),
            string_required m2]) x = Inr ms"
  by (cases x; simp add: yup_defs full_name_def truthy_def call_trim_def)+

lemma validate_other_total:
  "\<exists>ms. validate p (chain yup_mixed [schema_nullable, schema_test (Test m False fileSize)]) f
     = Inr ms"
  "\<exists>ms. validate p (chain yup_boolean [schema_oneOf vals m1, schema_required m2]) b = Inr ms"
  by (cases f; simp add: yup_defs fileSize_def) (cases b; simp add: yup_defs)

lemma object_validate_total:
  "list_all (\<lambda>f. \<exists>ms. snd f = Inr ms) fs \<Longrightarrow> \<exists>inner. object_validate fs = Inr inner"
  by (induction fs rule: object_validate.induct) auto

lemma contactSchema_never_throws:
  "\<exists>inner. object_validate (contact_fields contactSchema n) = Inr inner"
  by (rule object_validate_total)
     (simp add: contact_fields_def field_def contactSchema_def validate_string_total
       validate_other_total)

lemma contactSchema_part_000_never_throws:
  "\<exists>inner. object_validate (contact_fields contactSchema_part_000 n) = Inr inner"
  by (rule object_validate_total)
     (simp add: contact_fields_def field_def contactSchema_part_000_def validate_string_total
       validate_other_total)

section \<open>The newsletter validators in closed form\<close>

lemma newsletter_rule:
  "validateNewsletter v =
     Inr (if NewsletterFormValues.email v = [] then [(''email'', ascii ''Email is required'')]
          else if search rEmail (NewsletterFormValues.email v) then []
          else [(''email'', ascii ''Invalid email'')])"
  by (simp add: validateNewsletter_def runValidationSchema_def newsletter_fields_def field_def
      newsletterSchema_def prepareNewsletter_def validate_email_required rule_def
      yupToFormErrors_def)

lemma newsletter_rule_part_000:
  "validateNewsletter_part_000 v =
     Inr (if NewsletterFormValues.email v = [] then [(''email'', ascii ''email is a required field'')]
          else if search rEmail (NewsletterFormValues.email v) then []
          else [(''email'', ascii ''email must be a valid email'')])"
  by (simp add: validateNewsletter_part_000_def runValidationSchema_def newsletter_fields_def
      field_def newsletterSchema_part_000_def prepareNewsletter_def
      validate_email_required_default)
     (simp add: rule_def yupToFormErrors_def locale_required_def locale_email_def)

lemma newsletter_examples:
  "validateNewsletter \<lparr>NewsletterFormValues.email = ascii ''a@b.com''\<rparr> = Inr []"
  "validateNewsletter \<lparr>NewsletterFormValues.email = []\<rparr>
     = Inr [(''email'', ascii ''Email is required'')]"
  "validateNewsletter \<lparr>NewsletterFormValues.email = ascii ''not-an-email''\<rparr>
     = Inr [(''email'', ascii ''Invalid email'')]"
  using email_examples by (simp_all add: newsletter_rule) (simp_all add: ascii_def)

section \<open>Where the two contact validators agree\<close>

lemma contact_validators_agree:
  "postcode v = [] \<or> postcode_ok (postcode v) \<Longrightarrow>
   contactPhone v = [] \<or> phone_ok (contactPhone v) \<Longrightarrow>
   validateContact_part_000 v = validateContact v"
  by (auto simp add: validateContact_eq validateContact_part_000_eq contact_table_def rule_def)

lemma postcode_rule:
  "\<exists>errors. validateContact v = Inr errors
     \<and> map_of errors ''postcode'' =
         (if postcode v = [] then Some (ascii ''Postcode is required'')
          else if 4 \<le> length (postcode v) \<and> length (postcode v) \<le> 10
                  \<and> list_all isDigit (postcode v) then None
          else Some postcode_message)"
  by (simp add: validateContact_eq entry_simps rule_def postcode_ok_def)

lemma postcode_examples:
  "validateContact (scenario\<lparr>postcode := ascii ''1234''\<rparr>) = Inr []"
  "validateContact (scenario\<lparr>postcode := ascii ''123''\<rparr>) = Inr [(''postcode'', postcode_message)]"
  "validateContact (scenario\<lparr>postcode := ascii ''12345678901''\<rparr>)
     = Inr [(''postcode'', postcode_message)]"
  "validateContact (scenario\<lparr>postcode := ascii ''12a4''\<rparr>) = Inr [(''postcode'', postcode_message)]"
  "validateContact (scenario\<lparr>postcode := []\<rparr>)
     = Inr [(''postcode'', ascii ''Postcode is required'')]"
  by code_simp+

lemma isValid_iff: "isValid errors \<longleftrightarrow> (\<forall>p. map_of errors p = None)"
proof (cases errors)
  case Nil
  then show ?thesis by (simp add: isValid_def)
next
  case (Cons e t)
  obtain k m where "e = (k, m)" by (cases e)
  with Cons have "map_of errors k = Some m" by simp
  with Cons show ?thesis by (auto simp add: isValid_def)
qed

section \<open>The claims\<close>

subsection \<open>C1: the contact name\<close>

text \<open>
  Claim C1, as the specification words it: \<open>contactName\<close> is valid iff it is non-empty
  and its trimmed value splits on whitespace into at least two tokens. The source
  splits the trimmed value at the space character U+0020 only, so two names separated
  by a tab are two whitespace tokens and still rejected.
\<close>

theorem contactName_tab_counterexample:
  "spec_contactName_valid (ascii ''Jane'' @ [0x09] @ ascii ''Doe'')
   \<and> validateContact (scenario\<lparr>contactName := ascii ''Jane'' @ [0x09] @ ascii ''Doe''\<rparr>)
       = Inr [(''contactName'', ascii ''Please enter at least first and last name'')]"
  by code_simp

text \<open>
  Claim C1, amended: in both components, \<open>contactName\<close> is valid iff it is non-empty
  and its trimmed value, split at the space character, has at least two pieces (that is,
  the trimmed value contains a space); the message is "Contact name is required" on the
  empty string and "Please enter at least first and last name" on a non-empty string
  that fails. Every name accepted this way also satisfies the rule in the
  specification's words.
\<close>

theorem contactName_space_rule:
  "(\<exists>errors. validateContact v = Inr errors
      \<and> map_of errors ''contactName'' =
          (if contactName v = [] then Some (ascii ''Contact name is required'')
           else if 2 \<le> length (js_split SPACE (trim (contactName v))) then None
           else Some (ascii ''Please enter at least first and last name''))
      \<and> (map_of errors ''contactName'' = None \<longrightarrow> spec_contactName_valid (contactName v)))
   \<and> (\<exists>errors. validateContact_part_000 v = Inr errors
      \<and> map_of errors ''contactName'' =
          (if contactName v = [] then Some (ascii ''Contact name is required'')
           else if 2 \<le> length (js_split SPACE (trim (contactName v))) then None
           else Some (ascii ''Please enter at least first and last name'')))
   \<and> (2 \<le> length (js_split SPACE (trim (contactName v)))
        \<longleftrightarrow> SPACE \<in> set (trim (contactName v)))"
proof -
  have "map_of (present (contact_table postcode_ok phone_ok v)) ''contactName'' = None
        \<longrightarrow> spec_contactName_valid (contactName v)"
    using split_valid_imp_spec_valid [of "contactName v"]
    by (auto simp add: entry_simps rule_def split: if_splits)
  then show ?thesis
    by (simp add: validateContact_eq validateContact_part_000_eq entry_simps rule_def
        js_split_two)
qed

theorem contactName_space_rule_witness:
  "(\<exists>errors. validateContact (scenario\<lparr>contactName := ascii ''Jane Doe''\<rparr>) = Inr errors
      \<and> map_of errors ''contactName'' = None)
   \<and> (\<exists>errors. validateContact (scenario\<lparr>contactName := ascii ''Jane''\<rparr>) = Inr errors
      \<and> map_of errors ''contactName''
          = Some (ascii ''Please enter at least first and last name''))
   \<and> (\<exists>errors. validateContact (scenario\<lparr>contactName := ascii ''  Jane   Doe  ''\<rparr>)
          = Inr errors
      \<and> map_of errors ''contactName'' = None)
   \<and> (\<exists>errors. validateContact (scenario\<lparr>contactName := []\<rparr>) = Inr errors
      \<and> map_of errors ''contactName'' = Some (ascii ''Contact name is required''))
   \<and> spec_contactName_valid (ascii ''Jane Doe'')"
  using contactName_space_rule [of "scenario\<lparr>contactName := ascii ''Jane Doe''\<rparr>"]
    contactName_space_rule [of "scenario\<lparr>contactName := ascii ''Jane''\<rparr>"]
    contactName_space_rule [of "scenario\<lparr>contactName := ascii ''  Jane   Doe  ''\<rparr>"]
    contactName_space_rule [of "scenario\<lparr>contactName := []\<rparr>"]
  by (auto simp add: eval_defs)

subsection \<open>C2: the postcode\<close>

text \<open>
  Claim C2: \<open>postcode\<close> is valid iff it is non-empty and consists of 4 to 10 decimal
  digits only, with "Postcode is required" on the empty string and the digits message
  otherwise. The schema of \<open>ContactForm.tsx\<close> does exactly this (\<open>postcode_rule\<close>,
  \<open>postcode_examples\<close>). The schema of the second component has only
  \<open>required("Postcode is required")\<close> on this field: there, each of the three invalid
  postcodes of the claim is accepted, and the form is valid.
\<close>

theorem postcode_part_000_unchecked:
  "validateContact_part_000 (scenario\<lparr>postcode := ascii ''123''\<rparr>) = Inr []
   \<and> validateContact_part_000 (scenario\<lparr>postcode := ascii ''12345678901''\<rparr>) = Inr []
   \<and> validateContact_part_000 (scenario\<lparr>postcode := ascii ''12a4''\<rparr>) = Inr []"
  by code_simp

subsection \<open>C3: the agreement to the NDA\<close>

text \<open>
  Claim C3: in both components the field \<open>nda\<close> is valid iff it is \<open>true\<close>; when it
  is \<open>false\<close> its entry is "You must agree to NDA", and that is the only message that
  Yup reports for the field.
\<close>

theorem nda_rule:
  "(\<exists>errors. validateContact v = Inr errors
      \<and> map_of errors ''nda'' = (if nda v then None else Some (ascii ''You must agree to NDA'')))
   \<and> (\<exists>errors. validateContact_part_000 v = Inr errors
      \<and> map_of errors ''nda'' = (if nda v then None else Some (ascii ''You must agree to NDA'')))
   \<and> validate ''nda'' (nda contactSchema) (Val (nda v))
       = Inr (if nda v then [] else [ascii ''You must agree to NDA''])"
  by (simp add: validateContact_eq validateContact_part_000_eq entry_simps
      contactSchema_def validate_nda)


theorem nda_rule_witness:
  "(\<exists>errors. validateContact (scenario\<lparr>nda := False\<rparr>) = Inr errors
      \<and> map_of errors ''nda'' = Some (ascii ''You must agree to NDA''))
   \<and> (\<exists>errors. validateContact scenario = Inr errors \<and> map_of errors ''nda'' = None)"
  using nda_rule [of "scenario\<lparr>nda := False\<rparr>"] nda_rule [of scenario]
  by (auto simp add: scenario_def)


subsection \<open>C4: required and shape messages exclude each other\<close>

text \<open>
  Claim C4: for each of the seven fields with a required check and a shape or length
  check, the messages that Yup reports for the field are the required message alone
  when the value is empty, the shape message alone when the value is non-empty and
  fails the shape rule, and none otherwise; the two messages never appear together.
  Formik keeps the first message of each path; here that loses nothing, and the errors
  object is the list of all reported messages.
\<close>

theorem required_and_shape_exclusive:
  "\<exists>inner. object_validate (contact_fields contactSchema (prepareDataForValidation v)) = Inr inner
     \<and> validateContact v = Inr inner
     \<and> field_messages inner ''companyName'' =
         (if companyName v = [] then [ascii ''Company name is required'']
          else if 2 \<le> length (companyName v) then []
          else [ascii ''Company name must be at least 2 characters''])
     \<and> field_messages inner ''address'' =
         (if address v = [] then [ascii ''Address is required'']
          else if 5 \<le> length (address v) then []
          else [ascii ''Address must be at least 5 characters''])
     \<and> field_messages inner ''postcode'' =
         (if postcode v = [] then [ascii ''Postcode is required'']
          else if 4 \<le> length (postcode v) \<and> length (postcode v) \<le> 10
                  \<and> list_all isDigit (postcode v) then []
          else [postcode_message])
     \<and> field_messages inner ''contactName'' =
         (if contactName v = [] then [ascii ''Contact name is required'']
          else if 2 \<le> length (js_split SPACE (trim (contactName v))) then []
          else [ascii ''Please enter at least first and last name''])
     \<and> field_messages inner ''contactPhone'' =
         (if contactPhone v = [] then [ascii ''Contact phone is required'']
          else if 10 \<le> length (contactPhone v) \<and> list_all isDigit (contactPhone v) then []
          else [ascii ''Contact phone must be at least 10 digits''])
     \<and> field_messages inner ''email'' =
         (if email v = [] then [ascii ''Email is required'']
          else if search rEmail (email v) then []
          else [ascii ''Invalid email address''])
     \<and> field_messages inner ''idea'' =
         (if idea v = [] then [ascii ''Idea is required'']
          else if 30 \<le> length (idea v) then []
          else [ascii ''Idea description must be at least 30 characters''])"
proof (intro exI conjI)
  show "object_validate (contact_fields contactSchema (prepareDataForValidation v))
          = Inr (present (contact_table postcode_ok phone_ok v))"
    by (rule contact_inner)
  show "validateContact v = Inr (present (contact_table postcode_ok phone_ok v))"
    by (rule validateContact_eq)
qed (simp_all add: inner_simps rule_def postcode_ok_def phone_ok_def)

theorem required_and_shape_exclusive_witness:
  "\<exists>inner. object_validate (contact_fields contactSchema (prepareDataForValidation
       (scenario\<lparr>companyName := [], postcode := ascii ''12a4'', idea := ascii ''too short''\<rparr>)))
       = Inr inner
     \<and> validateContact
          (scenario\<lparr>companyName := [], postcode := ascii ''12a4'', idea := ascii ''too short''\<rparr>)
         = Inr inner
     \<and> field_messages inner ''companyName'' = [ascii ''Company name is required'']
     \<and> field_messages inner ''address'' = []
     \<and> field_messages inner ''postcode'' = [postcode_message]
     \<and> field_messages inner ''contactName'' = []
     \<and> field_messages inner ''contactPhone'' = []
     \<and> field_messages inner ''email'' = []
     \<and> field_messages inner ''idea'' = [ascii ''Idea description must be at least 30 characters'']"
  using required_and_shape_exclusive
      [of "scenario\<lparr>companyName := [], postcode := ascii ''12a4'', idea := ascii ''too short''\<rparr>"]
    email_examples(2)
  by (simp add: eval_defs)

subsection \<open>C5: the size of the file\<close>

text \<open>
  Claim C5: in both components the field \<open>file\<close> is valid when it is \<open>null\<close>, valid
  when the size is at most 10 * 1024 * 1024 bytes (so at exactly that size), and has the
  message "File size is too large (max 10MB)" when the size is 10 * 1024 * 1024 + 1
  bytes or more.
\<close>

theorem file_rule:
  "(\<exists>errors. validateContact v = Inr errors
      \<and> map_of errors ''file'' =
          (case file v of
             None \<Rightarrow> None
           | Some f \<Rightarrow>
               if size_of f \<le> 10 * 1024 * 1024 then None
               else Some (ascii ''File size is too large (max 10MB)'')))
   \<and> (\<exists>errors. validateContact_part_000 v = Inr errors
      \<and> map_of errors ''file'' =
          (case file v of
             None \<Rightarrow> None
           | Some f \<Rightarrow>
               if size_of f \<le> 10 * 1024 * 1024 then None
               else Some (ascii ''File size is too large (max 10MB)'')))"
  by (simp add: validateContact_eq validateContact_part_000_eq entry_simps)


theorem file_rule_witness:
  "(\<exists>errors. validateContact (scenario\<lparr>file := None\<rparr>) = Inr errors
      \<and> map_of errors ''file'' = None)
   \<and> (\<exists>errors. validateContact (scenario\<lparr>file := Some (File (10 * 1024 * 1024))\<rparr>) = Inr errors
      \<and> map_of errors ''file'' = None)
   \<and> (\<exists>errors. validateContact (scenario\<lparr>file := Some (File (10 * 1024 * 1024 + 1))\<rparr>) = Inr errors
      \<and> map_of errors ''file'' = Some (ascii ''File size is too large (max 10MB)''))"
  using file_rule [of "scenario\<lparr>file := None\<rparr>"]
    file_rule [of "scenario\<lparr>file := Some (File (10 * 1024 * 1024))\<rparr>"]
    file_rule [of "scenario\<lparr>file := Some (File (10 * 1024 * 1024 + 1))\<rparr>"]
  by (auto simp add: scenario_def)


subsection \<open>C6: the newsletter form\<close>

text \<open>
  Claim C6: \<open>validateNewsletter\<close> reports nothing for a well-formed email, exactly
  "Email is required" for the empty string and exactly "Invalid email" for a non-empty
  malformed email, and no other field. The schema of \<open>ContactForm.tsx\<close> does exactly
  this (\<open>newsletter_rule\<close>, \<open>newsletter_examples\<close>). The schema of the second
  component is \<open>Yup.string().email().required()\<close>, without messages: there the two
  messages are Yup's defaults.
\<close>

theorem newsletter_part_000_default_messages:
  "validateNewsletter_part_000 \<lparr>NewsletterFormValues.email = []\<rparr>
     = Inr [(''email'', ascii ''email is a required field'')]
   \<and> validateNewsletter_part_000 \<lparr>NewsletterFormValues.email = ascii ''not-an-email''\<rparr>
     = Inr [(''email'', ascii ''email must be a valid email'')]"
  by code_simp

subsection \<open>C7: the flag isValid\<close>

text \<open>
  Claim C7: \<open>isValid\<close> holds iff no field has an entry in the errors object; the
  record of the end-to-end scenario has the empty errors object and is valid, and the
  same record with \<open>companyName: "A"\<close> has the single entry "Company name must be at
  least 2 characters" on \<open>companyName\<close> and is not valid.
\<close>

theorem isValid_iff_no_entry:
  "(\<exists>errors. validateContact v = Inr errors
      \<and> (isValid errors \<longleftrightarrow> (\<forall>p. map_of errors p = None)))
   \<and> validateContact scenario = Inr [] \<and> isValid []
   \<and> validateContact (scenario\<lparr>companyName := ascii ''A''\<rparr>)
       = Inr [(''companyName'', ascii ''Company name must be at least 2 characters'')]
   \<and> \<not> isValid [(''companyName'', ascii ''Company name must be at least 2 characters'')]"
proof (intro conjI)
  show "\<exists>errors. validateContact v = Inr errors
      \<and> (isValid errors \<longleftrightarrow> (\<forall>p. map_of errors p = None))"
    by (simp add: validateContact_eq isValid_iff)
  show "validateContact scenario = Inr []"
    by code_simp
  show "validateContact (scenario\<lparr>companyName := ascii ''A''\<rparr>)
       = Inr [(''companyName'', ascii ''Company name must be at least 2 characters'')]"
    by code_simp
qed (simp_all add: isValid_def)

theorem isValid_iff_no_entry_witness:
  "\<exists>errors. validateContact scenario = Inr errors \<and> isValid errors
     \<and> (\<forall>p. map_of errors p = None)"
  using isValid_iff_no_entry [of scenario] by auto

subsection \<open>C8: determinism\<close>

text \<open>
  Claim C8 has no theorem. \<open>validateContact\<close> is a function of the record: the source
  reads no clock and no state that an earlier call could have written, which is what
  allows it to be embedded as a function in the first place.
\<close>

subsection \<open>C9: totality\<close>

text \<open>
  Claim C9: \<open>validateContact\<close> never throws. For every record it returns the errors
  object that has, for each of the eleven fields, no entry where the rule of the field
  holds and the message of the rule where it fails; the validator of the second
  component returns an errors object for every record as well. With Yup alone, the
  contact schema reports messages and never throws on any values of the fields' types,
  \<open>undefined\<close> and \<open>null\<close> included.
\<close>

theorem validateContact_total:
  "validateContact v = Inr (present (contact_table postcode_ok phone_ok v))
   \<and> map fst (contact_table postcode_ok phone_ok v) =
       [''companyName'', ''natureOfBusiness'', ''address'', ''postcode'', ''contactName'',
        ''contactPhone'', ''email'', ''linkedin'', ''idea'', ''file'', ''nda'']
   \<and> (\<forall>p. map_of (present (contact_table postcode_ok phone_ok v)) p
            = Option.bind (map_of (contact_table postcode_ok phone_ok v) p) (\<lambda>e. e))
   \<and> (\<exists>errors. validateContact_part_000 v = Inr errors)
   \<and> (\<forall>n. \<exists>inner. object_validate (contact_fields contactSchema n) = Inr inner)
   \<and> (\<forall>n. \<exists>inner. object_validate (contact_fields contactSchema_part_000 n) = Inr inner)"
  by (simp add: validateContact_eq validateContact_part_000_eq contact_table_keys
      contact_entry contactSchema_never_throws contactSchema_part_000_never_throws)

theorem validateContact_total_witness:
  "validateContact scenario = Inr (present (contact_table postcode_ok phone_ok scenario))
   \<and> present (contact_table postcode_ok phone_ok scenario) = []"
  using validateContact_total [of scenario]
  by (simp add: contact_table_def rule_def postcode_ok_def phone_ok_def eval_defs
      email_examples(2) [unfolded ascii_def, simplified])

subsection \<open>C10: the two contact validators\<close>

text \<open>
  Claim C10: the contact schemas of the two components compute the same result for
  every record. They do not: the second component checks \<open>postcode\<close> and
  \<open>contactPhone\<close> for presence only, so a record with the postcode "123", or with the
  phone "123456789", is rejected by the schema of \<open>ContactForm.tsx\<close> and accepted by
  the other. On the records whose postcode and phone are empty or well-formed the two
  agree (\<open>contact_validators_agree\<close>).
\<close>

theorem contact_validators_differ:
  "validateContact (scenario\<lparr>postcode := ascii ''123''\<rparr>) = Inr [(''postcode'', postcode_message)]
   \<and> validateContact_part_000 (scenario\<lparr>postcode := ascii ''123''\<rparr>) = Inr []
   \<and> validateContact (scenario\<lparr>contactPhone := ascii ''123456789''\<rparr>)
       = Inr [(''contactPhone'', ascii ''Contact phone must be at least 10 digits'')]
   \<and> validateContact_part_000 (scenario\<lparr>contactPhone := ascii ''123456789''\<rparr>) = Inr []"
  by code_simp

end
